theory Spec2Isabelle
  imports Main "HOL-Library.Word" "HOL-Library.Sublist"
begin

section \<open>JavaScript values as the server sees them\<close>

text \<open>
  A JavaScript string is a sequence of UTF-16 code units; \<open>length\<close>, \<open>trim\<close> and
  a regular expression without the \<open>u\<close> flag all work on code units.
\<close>

type_synonym jsstr = "16 word list"

definition str :: "string \<Rightarrow> jsstr" where
  "str cs = map of_char cs"

text \<open>
  The values a parsed request body (JSON, urlencoded or multipart) or a parsed
  response can hold. A number is carried with the two observations the server
  makes of one: its truth value (false for \<open>0\<close>, \<open>-0\<close> and \<open>NaN\<close>) and its
  rendering by \<open>ToString\<close>. An object is the association list of its own
  properties, looked up with \<open>map_of\<close>. \<open>JObj\<close> is an ordinary object, as the JSON
  and urlencoded parsers build it; \<open>JBare\<close> is an object without prototype, as the
  multipart parser builds it for a nested field such as \<open>customPrompt[a]\<close>.
\<close>

datatype jsval =
    JUndefined
  | JNull
  | JBool bool
  | JNum bool jsstr
  | JStr jsstr
  | JArr "jsval list"
  | JObj "(jsstr \<times> jsval) list"
  | JBare "(jsstr \<times> jsval) list"

datatype error =
    TypeError
  | Error jsstr
  | Rejected

text \<open>\<open>ToBoolean\<close>: what \<open>!v\<close>, \<open>if (v)\<close> and \<open>v || d\<close> test.\<close>

fun truthy :: "jsval \<Rightarrow> bool" where
  "truthy JUndefined = False"
| "truthy JNull = False"
| "truthy (JBool b) = b"
| "truthy (JNum nz shown) = nz"
| "truthy (JStr s) = (s \<noteq> [])"
| "truthy (JArr xs) = True"
| "truthy (JObj kvs) = True"
| "truthy (JBare kvs) = True"

fun isArray :: "jsval \<Rightarrow> bool" where
  "isArray (JArr xs) = True"
| "isArray v = False"

text \<open>
  \<open>ToString\<close>, as a template literal applies it. An array is joined with commas,
  \<open>undefined\<close> and \<open>null\<close> elements rendering as the empty string. An ordinary
  object renders through \<open>Object.prototype.toString\<close>, unless it has an own property
  \<open>toString\<close>: parsed data is never callable, \<open>valueOf\<close> then returns the object
  itself, and the conversion throws a TypeError. An object without prototype has
  neither method to call (an own property of either name is parsed data again), so
  its conversion always throws a TypeError.
\<close>

fun toStringJS :: "jsval \<Rightarrow> error + jsstr"
  and joinElements :: "jsval list \<Rightarrow> error + jsstr"
  and elementString :: "jsval \<Rightarrow> error + jsstr"
where
  "toStringJS JUndefined = Inr (str ''undefined'')"
| "toStringJS JNull = Inr (str ''null'')"
| "toStringJS (JBool b) = Inr (if b then str ''true'' else str ''false'')"
| "toStringJS (JNum nz shown) = Inr shown"
| "toStringJS (JStr s) = Inr s"
| "toStringJS (JArr xs) = joinElements xs"
| "toStringJS (JObj kvs) =
     (if str ''toString'' \<in> fst ` set kvs then Inl TypeError
      else Inr (str ''[object Object]''))"
| "toStringJS (JBare kvs) = Inl TypeError"
| "joinElements [] = Inr []"
| "joinElements [x] = elementString x"
| "joinElements (x # y # ys) =
     (case elementString x of
        Inl e \<Rightarrow> Inl e
      | Inr s \<Rightarrow>
          (case joinElements (y # ys) of
             Inl e \<Rightarrow> Inl e
           | Inr r \<Rightarrow> Inr (s @ str '','' @ r)))"
| "elementString JUndefined = Inr []"
| "elementString JNull = Inr []"
| "elementString (JBool b) = toStringJS (JBool b)"
| "elementString (JNum nz shown) = toStringJS (JNum nz shown)"
| "elementString (JStr s) = toStringJS (JStr s)"
| "elementString (JArr xs) = toStringJS (JArr xs)"
| "elementString (JObj kvs) = toStringJS (JObj kvs)"
| "elementString (JBare kvs) = toStringJS (JBare kvs)"

section \<open>String operations of the fallback summarizer\<close>

text \<open>
  \<open>String.prototype.trim\<close> removes WhiteSpace and LineTerminator code units from
  both ends: TAB, LF, VT, FF, CR, SP, NBSP, U+1680, U+2000..U+200A, U+2028, U+2029,
  U+202F, U+205F, U+3000 and U+FEFF.
\<close>

definition isWhiteSpace :: "16 word \<Rightarrow> bool" where
  "isWhiteSpace c \<longleftrightarrow>
     c \<in> {0x9, 0xA, 0xB, 0xC, 0xD, 0x20, 0xA0, 0x1680, 0x2028, 0x2029,
          0x202F, 0x205F, 0x3000, 0xFEFF}
     \<or> (0x2000 \<le> c \<and> c \<le> 0x200A)"

definition trim :: "jsstr \<Rightarrow> jsstr" where
  "trim s = rev (dropWhile isWhiteSpace (rev (dropWhile isWhiteSpace s)))"

text \<open>The character class \<open>[.!?]\<close>.\<close>

definition isTerminator :: "16 word \<Rightarrow> bool" where
  "isTerminator c \<longleftrightarrow> c = 0x2E \<or> c = 0x21 \<or> c = 0x3F"

text \<open>
  \<open>transcript.split(/[.!?]+/)\<close>. The split scans for the next position where the
  pattern matches; the greedy \<open>+\<close> consumes the whole run of terminators; the text
  before the run is a fragment, and the scan resumes after the run. The text after
  the last run is the last fragment, so the result is never empty: a transcript
  without terminator is its own single fragment, and a transcript that starts or
  ends with a terminator has an empty first or last fragment.
\<close>

function splitSentences :: "jsstr \<Rightarrow> jsstr list" where
  "splitSentences s =
     (case dropWhile (\<lambda>c. \<not> isTerminator c) s of
        [] \<Rightarrow> [s]
      | c # rest \<Rightarrow>
          takeWhile (\<lambda>c. \<not> isTerminator c) s # splitSentences (dropWhile isTerminator rest))"
  by pat_completeness auto

termination splitSentences
proof (relation "measure length")
  show "wf (measure (length :: jsstr \<Rightarrow> nat))"
    by simp
next
  fix s :: jsstr and c rest
  assume run: "dropWhile (\<lambda>c. \<not> isTerminator c) s = c # rest"
  have "length (dropWhile isTerminator rest) \<le> length rest"
    by (rule length_dropWhile_le)
  also have "length rest < length (dropWhile (\<lambda>c. \<not> isTerminator c) s)"
    using run by simp
  also have "\<dots> \<le> length s"
    by (rule length_dropWhile_le)
  finally show "(dropWhile isTerminator rest, s) \<in> measure length"
    by simp
qed

declare splitSentences.simps [simp del]

text \<open>\<open>keyPoints.join('\n')\<close>, for a separator \<open>sep\<close>.\<close>

fun joinWith :: "jsstr \<Rightarrow> jsstr list \<Rightarrow> jsstr" where
  "joinWith sep [] = []"
| "joinWith sep [x] = x"
| "joinWith sep (x # y # ys) = x @ sep @ joinWith sep (y # ys)"

section \<open>The fallback summarizer\<close>

text \<open>
  The bullet marker of the template literal, as the source file spells it: the code
  units U+00E2, U+20AC, U+00A2 and a space.
\<close>

definition bullet :: jsstr where
  "bullet = [0xE2, 0x20AC, 0xA2, 0x20]"

definition sentences :: "jsstr \<Rightarrow> jsstr list" where
  "sentences transcript = filter (\<lambda>s. length (trim s) > 10) (splitSentences transcript)"

definition keyPoints :: "jsstr \<Rightarrow> jsstr list" where
  "keyPoints transcript = map (\<lambda>s. bullet @ trim s) (take 5 (sentences transcript))"

definition generateSimpleSummary :: "jsstr \<Rightarrow> jsval \<Rightarrow> error + jsstr" where
  "generateSimpleSummary transcript customPrompt =
     (let summary = str ''Summary:\<newline>'' @ joinWith (str ''\<newline>'') (keyPoints transcript)
      in if truthy customPrompt then
           (case toStringJS customPrompt of
              Inl e \<Rightarrow> Inl e
            | Inr prompt \<Rightarrow> Inr (str ''Custom Instructions: '' @ prompt @ str ''\<newline>\<newline>'' @ summary))
         else Inr summary)"

section \<open>Effects, environment and responses\<close>

text \<open>
  What the server hands to the delivery client: one message per recipient.
\<close>

record message =
  msg_to :: jsval
  msg_from :: jsval
  msg_subject :: jsval
  msg_text :: jsval
  msg_html :: jsstr

text \<open>
  The request posted to the completion API (the constant sampling temperature and
  content type are left out).
\<close>

record completion_request =
  rq_url :: jsstr
  rq_model :: jsstr
  rq_system :: jsstr
  rq_user :: jsstr
  rq_max_tokens :: nat
  rq_authorization :: jsstr

text \<open>
  The observable effects of a handler, in the order they happen. A console line is
  recorded by its leading text; the values printed after it are left out.
\<close>

datatype event =
    ConsoleLog jsstr
  | ConsoleError jsstr
  | Timeout nat
  | SetApiKey jsstr
  | Send message
  | Post completion_request

text \<open>
  The environment of a request: the two credentials of \<open>process.env\<close> (\<open>None\<close> when
  the variable is not set) and the outside world. \<open>axiosPost\<close> answers a completion
  request with the parsed response body or rejects; \<open>sgSend i msg\<close> is the outcome of
  the \<open>i\<close>-th delivery call of the request, \<open>Some err\<close> when it rejects.
\<close>

record env =
  GROQ_API_KEY :: "jsstr option"
  SENDGRID_API_KEY :: "jsstr option"
  axiosPost :: "completion_request \<Rightarrow> error + jsval"
  sgSend :: "nat \<Rightarrow> message \<Rightarrow> error option"

type_synonym 'a io = "event list \<times> (error + 'a)"

record response =
  status :: nat
  json :: jsval

definition errorResponse :: "nat \<Rightarrow> string \<Rightarrow> response" where
  "errorResponse code msg = \<lparr>status = code, json = JObj [(str ''error'', JStr (str msg))]\<rparr>"

text \<open>\<open>!key\<close> for an environment variable: not set, or set to the empty string.\<close>

definition configured :: "jsstr option \<Rightarrow> bool" where
  "configured key = (case key of None \<Rightarrow> False | Some k \<Rightarrow> k \<noteq> [])"

section \<open>Email delivery\<close>

definition defaultSender :: jsstr where
  "defaultSender = str ''amanbhagat.191@gmail.com''"

definition htmlBody :: "jsstr \<Rightarrow> jsstr" where
  \<open>htmlBody summary =
     str ''<div style="font-family: Arial, sans-serif; line-height: 1.6;">\<newline>          <h2>Meeting Summary</h2>\<newline>          <div style="white-space: pre-wrap;">''
     @ summary @ str ''</div>\<newline>        </div>''\<close>

text \<open>The message object of one loop iteration; its template literal converts the summary.\<close>

definition makeMessage :: "jsval \<Rightarrow> jsval \<Rightarrow> jsval \<Rightarrow> jsval \<Rightarrow> error + message" where
  "makeMessage recipient sender subject summary =
     (case toStringJS summary of
        Inl err \<Rightarrow> Inl err
      | Inr s \<Rightarrow>
          Inr \<lparr>msg_to = recipient, msg_from = sender, msg_subject = subject,
               msg_text = summary, msg_html = htmlBody s\<rparr>)"

text \<open>
  The loop \<open>for (const recipient of recipients)\<close>: build the message, await the
  delivery call, log the recipient. An exception leaves the loop.
\<close>

fun sendEach :: "env \<Rightarrow> nat \<Rightarrow> jsval list \<Rightarrow> jsval \<Rightarrow> jsval \<Rightarrow> jsval \<Rightarrow> unit io" where
  "sendEach e i [] subject summary sender = ([], Inr ())"
| "sendEach e i (recipient # rest) subject summary sender =
     (case makeMessage recipient sender subject summary of
        Inl err \<Rightarrow> ([], Inl err)
      | Inr msg \<Rightarrow>
          (case sgSend e i msg of
             Some err \<Rightarrow> ([Send msg], Inl err)
           | None \<Rightarrow>
               (case toStringJS recipient of
                  Inl err \<Rightarrow> ([Send msg], Inl err)
                | Inr r \<Rightarrow>
                    (case sendEach e (Suc i) rest subject summary sender of
                       (evs, res) \<Rightarrow>
                         (Send msg # ConsoleLog (str ''Email sent successfully to: '' @ r) # evs,
                          res)))))"

text \<open>The default parameter \<open>sender = '...'\<close> replaces an \<open>undefined\<close> argument only.\<close>

definition senderOrDefault :: "jsval \<Rightarrow> jsval" where
  "senderOrDefault sender0 = (if sender0 = JUndefined then JStr defaultSender else sender0)"

text \<open>
  \<open>sendEmail\<close>. Its only caller passes an Array, whose elements are \<open>recipients\<close>
  here. Without a key the function only logs, waits a second and reports success;
  a key that does not start with \<open>SG.\<close> is an error; otherwise the loop runs. The
  \<open>catch\<close> block logs and rethrows.
\<close>

definition sendEmail :: "env \<Rightarrow> jsval list \<Rightarrow> jsval \<Rightarrow> jsval \<Rightarrow> jsval \<Rightarrow> bool io" where
  \<open>sendEmail e recipients subject summary sender0 =
     (let sender = senderOrDefault sender0;
          debug = [ConsoleLog (str ''Debug: SENDGRID_API_KEY =''),
                   ConsoleLog (str ''Debug: All environment variables:'')];
          logged =
            ([ConsoleLog (str ''Email would be sent to:''),
              ConsoleLog (str ''Subject:''),
              ConsoleLog (str ''Content:''),
              ConsoleLog (str ''Note: To send real emails, configure SENDGRID_API_KEY in .env file''),
              Timeout 1000],
             Inr True);
          (evs, res) =
            (case SENDGRID_API_KEY e of
               None \<Rightarrow> logged
             | Some sendgridApiKey \<Rightarrow>
                 if sendgridApiKey = [] then logged
                 else if \<not> prefix (str ''SG.'') sendgridApiKey then
                   ([ConsoleLog (str ''Error: SendGrid API key must start with "SG."''),
                     ConsoleLog (str ''Current API key format:'')],
                    Inl (Error (str ''Invalid SendGrid API key format'')))
                 else
                   (case sendEach e 0 recipients subject summary sender of
                      (sent, Inl err) \<Rightarrow> (SetApiKey sendgridApiKey # sent, Inl err)
                    | (sent, Inr u) \<Rightarrow> (SetApiKey sendgridApiKey # sent, Inr True)))
      in case res of
           Inl err \<Rightarrow> (debug @ evs @ [ConsoleError (str ''Email sending failed:'')], Inl err)
         | Inr ok \<Rightarrow> (debug @ evs, Inr ok))\<close>

section \<open>The Share operation\<close>

record share_body =
  body_summary :: jsval
  body_recipients :: jsval
  body_subject :: jsval
  body_sender :: jsval

fun arrayElements :: "jsval \<Rightarrow> jsval list" where
  "arrayElements (JArr xs) = xs"
| "arrayElements v = []"

definition sharedResponse :: response where
  "sharedResponse =
     \<lparr>status = 200,
      json = JObj [(str ''success'', JBool True),
                   (str ''message'', JStr (str ''Summary shared successfully''))]\<rparr>"

definition share :: "env \<Rightarrow> share_body \<Rightarrow> event list \<times> response" where
  "share e body =
     (let summary = body_summary body; recipients = body_recipients body;
          subject = body_subject body; sender = body_sender body
      in if \<not> truthy summary \<or> \<not> truthy recipients \<or> \<not> isArray recipients then
           ([], errorResponse 400 ''Invalid request data'')
         else
           (case sendEmail e (arrayElements recipients) subject summary sender of
              (evs, Inr ok) \<Rightarrow> (evs, sharedResponse)
            | (evs, Inl err) \<Rightarrow>
                (evs @ [ConsoleError (str ''Email error:'')],
                 errorResponse 500 ''Failed to send email'')))"

section \<open>The Summarize operation\<close>

text \<open>
  Property reads of \<open>response.data.choices[0].message.content\<close>. Reading a property
  of \<open>undefined\<close> or \<open>null\<close> throws; a value without the property gives
  \<open>undefined\<close>. \<open>getNamed\<close> is for the names \<open>choices\<close>, \<open>message\<close> and \<open>content\<close>,
  which no built-in prototype defines; \<open>getFirst\<close> is the read of index \<open>0\<close>.
\<close>

fun getNamed :: "jsstr \<Rightarrow> jsval \<Rightarrow> error + jsval" where
  "getNamed k JUndefined = Inl TypeError"
| "getNamed k JNull = Inl TypeError"
| "getNamed k (JObj kvs) = Inr (case map_of kvs k of None \<Rightarrow> JUndefined | Some v \<Rightarrow> v)"
| "getNamed k (JBare kvs) = Inr (case map_of kvs k of None \<Rightarrow> JUndefined | Some v \<Rightarrow> v)"
| "getNamed k v = Inr JUndefined"

fun getFirst :: "jsval \<Rightarrow> error + jsval" where
  "getFirst JUndefined = Inl TypeError"
| "getFirst JNull = Inl TypeError"
| "getFirst (JArr []) = Inr JUndefined"
| "getFirst (JArr (x # xs)) = Inr x"
| "getFirst (JStr []) = Inr JUndefined"
| "getFirst (JStr (c # cs)) = Inr (JStr [c])"
| "getFirst (JObj kvs) = Inr (case map_of kvs (str ''0'') of None \<Rightarrow> JUndefined | Some v \<Rightarrow> v)"
| "getFirst (JBare kvs) = Inr (case map_of kvs (str ''0'') of None \<Rightarrow> JUndefined | Some v \<Rightarrow> v)"
| "getFirst v = Inr JUndefined"

definition extractContent :: "jsval \<Rightarrow> error + jsval" where
  "extractContent data =
     (case getNamed (str ''choices'') data of
        Inl err \<Rightarrow> Inl err
      | Inr choices \<Rightarrow>
          (case getFirst choices of
             Inl err \<Rightarrow> Inl err
           | Inr choice \<Rightarrow>
               (case getNamed (str ''message'') choice of
                  Inl err \<Rightarrow> Inl err
                | Inr message \<Rightarrow> getNamed (str ''content'') message)))"

definition defaultInstruction :: jsstr where
  "defaultInstruction = str ''Provide a clear summary of the key points discussed in this meeting.''"

definition completionRequest :: "jsstr \<Rightarrow> jsstr \<Rightarrow> jsstr \<Rightarrow> completion_request" where
  "completionRequest groqApiKey transcript instructions =
     \<lparr>rq_url = str ''https://api.groq.com/openai/v1/chat/completions'',
      rq_model = str ''llama3-8b-8192'',
      rq_system = str ''You are a professional meeting summarizer. Create clear, structured summaries based on user instructions.'',
      rq_user = str ''Transcript: '' @ transcript @ str ''\<newline>\<newline>Instructions: '' @ instructions,
      rq_max_tokens = 1000,
      rq_authorization = str ''Bearer '' @ groqApiKey\<rparr>"

text \<open>The fallback as \<open>generateSummary\<close> returns it: the summary text as a value.\<close>

definition simpleSummaryValue :: "jsstr \<Rightarrow> jsval \<Rightarrow> error + jsval" where
  "simpleSummaryValue transcript customPrompt =
     (case generateSimpleSummary transcript customPrompt of
        Inl err \<Rightarrow> Inl err
      | Inr s \<Rightarrow> Inr (JStr s))"

text \<open>
  \<open>generateSummary\<close>: the \<open>try\<close> block returns the fallback when no key is set, and
  otherwise builds the request, posts it and reads the first completion; the
  \<open>catch\<close> block logs and returns the fallback.
\<close>

definition generateSummary :: "env \<Rightarrow> jsstr \<Rightarrow> jsval \<Rightarrow> jsval io" where
  "generateSummary e transcript customPrompt =
     (let (evs, res) =
            (case GROQ_API_KEY e of
               None \<Rightarrow> ([], simpleSummaryValue transcript customPrompt)
             | Some groqApiKey \<Rightarrow>
                 if groqApiKey = [] then ([], simpleSummaryValue transcript customPrompt)
                 else
                   (case toStringJS (if truthy customPrompt then customPrompt
                                     else JStr defaultInstruction) of
                      Inl err \<Rightarrow> ([], Inl err)
                    | Inr instructions \<Rightarrow>
                        (let request = completionRequest groqApiKey transcript instructions
                         in case axiosPost e request of
                              Inl err \<Rightarrow> ([Post request], Inl err)
                            | Inr data \<Rightarrow> ([Post request], extractContent data))))
      in case res of
           Inl err \<Rightarrow>
             (evs @ [ConsoleError (str ''AI service error:'')],
              simpleSummaryValue transcript customPrompt)
         | Inr summary \<Rightarrow> (evs, Inr summary))"

text \<open>
  A Summarize request: the uploaded file, decoded as UTF-8 (\<open>None\<close> when there is
  none), and the two fields of the body.
\<close>

record summarize_request =
  req_file :: "jsstr option"
  body_customPrompt :: jsval
  body_transcript :: jsval

definition summaryResponse :: "jsval \<Rightarrow> jsval \<Rightarrow> response" where
  "summaryResponse summary transcriptText =
     \<lparr>status = 200,
      json = JObj [(str ''success'', JBool True),
                   (str ''summary'', summary),
                   (str ''originalText'', transcriptText)]\<rparr>"

text \<open>
  The handler from \<open>transcriptText.trim()\<close> on. Only a string has a \<open>trim\<close> method:
  on any other value the call throws, and the handler's \<open>catch\<close> block answers.
\<close>

definition summarizeText :: "env \<Rightarrow> jsval \<Rightarrow> jsval \<Rightarrow> event list \<times> response" where
  "summarizeText e transcriptText customPrompt =
     (case transcriptText of
        JStr text \<Rightarrow>
          if trim text = [] then ([], errorResponse 400 ''Transcript is empty'')
          else
            (case generateSummary e text customPrompt of
               (evs, Inr summary) \<Rightarrow> (evs, summaryResponse summary transcriptText)
             | (evs, Inl err) \<Rightarrow>
                 (evs @ [ConsoleError (str ''Summarization error:'')],
                  errorResponse 500 ''Failed to generate summary''))
      | _ \<Rightarrow>
          ([ConsoleError (str ''Summarization error:'')],
           errorResponse 500 ''Failed to generate summary''))"

definition summarize :: "env \<Rightarrow> summarize_request \<Rightarrow> event list \<times> response" where
  "summarize e req =
     (let customPrompt = body_customPrompt req; transcript = body_transcript req
      in case req_file req of
           Some content \<Rightarrow> summarizeText e (JStr content) customPrompt
         | None \<Rightarrow>
             if truthy transcript then summarizeText e transcript customPrompt
             else ([], errorResponse 400 ''No transcript provided''))"

section \<open>Reading a trace\<close>

text \<open>The delivery calls and the completion calls of a trace, in order.\<close>

fun deliveries :: "event list \<Rightarrow> message list" where
  "deliveries [] = []"
| "deliveries (Send msg # evs) = msg # deliveries evs"
| "deliveries (ev # evs) = deliveries evs"

fun posts :: "event list \<Rightarrow> completion_request list" where
  "posts [] = []"
| "posts (Post request # evs) = request # posts evs"
| "posts (ev # evs) = posts evs"


text \<open>
  The message the loop is expected to build for a recipient, once the summary has
  been rendered as \<open>text\<close>.
\<close>

definition messageFor :: "share_body \<Rightarrow> jsstr \<Rightarrow> jsval \<Rightarrow> message" where
  "messageFor body text recipient =
     \<lparr>msg_to = recipient, msg_from = senderOrDefault (body_sender body),
      msg_subject = body_subject body, msg_text = body_summary body,
      msg_html = htmlBody text\<rparr>"

section \<open>Example inputs\<close>

definition exampleTranscript :: jsstr where
  "exampleTranscript = str ''Ok. We discussed the budget. Yes! It was long. Exactly 10. Nothing else matters here really. This is fragment four. No? This is the fifth one. And a sixth one follows.''"


text \<open>
  Environments: no credential at all; a delivery key of the wrong shape; a
  well-formed delivery key with the second delivery call failing, and with every
  call succeeding; a completion key with the completion API down, and with the
  completion API answering without any completion.
\<close>

definition envNoKeys :: env where
  "envNoKeys = \<lparr>GROQ_API_KEY = None, SENDGRID_API_KEY = None,
                 axiosPost = (\<lambda>request. Inl Rejected), sgSend = (\<lambda>i msg. None)\<rparr>"

definition envBadSendgridKey :: env where
  "envBadSendgridKey = \<lparr>GROQ_API_KEY = None, SENDGRID_API_KEY = Some (str ''my-secret-key''),
                 axiosPost = (\<lambda>request. Inl Rejected), sgSend = (\<lambda>i msg. None)\<rparr>"

definition envSecondSendFails :: env where
  "envSecondSendFails = \<lparr>GROQ_API_KEY = None, SENDGRID_API_KEY = Some (str ''SG.key''),
                 axiosPost = (\<lambda>request. Inl Rejected),
                 sgSend = (\<lambda>i msg. if i = 1 then Some Rejected else None)\<rparr>"

definition envCompletionDown :: env where
  "envCompletionDown = \<lparr>GROQ_API_KEY = Some (str ''gsk_key''), SENDGRID_API_KEY = None,
                 axiosPost = (\<lambda>request. Inl Rejected), sgSend = (\<lambda>i msg. None)\<rparr>"


definition envDelivers :: env where
  "envDelivers = \<lparr>GROQ_API_KEY = None, SENDGRID_API_KEY = Some (str ''SG.key''),
                 axiosPost = (\<lambda>request. Inl Rejected), sgSend = (\<lambda>i msg. None)\<rparr>"

definition exampleShare :: share_body where
  "exampleShare =
     \<lparr>body_summary = JStr (str ''Notes''),
      body_recipients = JArr [JStr (str ''a@x.org''), JStr (str ''b@x.org''), JStr (str ''c@x.org'')],
      body_subject = JStr (str ''Minutes''), body_sender = JStr (str ''me@x.org'')\<rparr>"

section \<open>The split\<close>

text \<open>
  What the split computes: its fragments hold no terminator, and put end to end
  they are the transcript with its terminators removed, so they come in transcript
  order and lose nothing but the terminators.
\<close>

lemma splitSentences_last:
  "dropWhile (\<lambda>c. \<not> isTerminator c) s = [] \<Longrightarrow> splitSentences s = [s]"
  by (subst splitSentences.simps) (simp only: list.case)

lemma splitSentences_next:
  "dropWhile (\<lambda>c. \<not> isTerminator c) s = d # rest \<Longrightarrow>
   splitSentences s =
     takeWhile (\<lambda>c. \<not> isTerminator c) s # splitSentences (dropWhile isTerminator rest)"
  by (subst splitSentences.simps) (simp only: list.case)

lemma splitSentences_not_Nil: "splitSentences s \<noteq> []"
  by (cases "dropWhile (\<lambda>c. \<not> isTerminator c) s")
     (simp_all only: splitSentences_last splitSentences_next list.distinct not_False_eq_True)

lemma splitSentences_no_terminator:
  "f \<in> set (splitSentences s) \<Longrightarrow> c \<in> set f \<Longrightarrow> \<not> isTerminator c"
proof (induction s arbitrary: f rule: splitSentences.induct)
  case (1 s)
  show ?case
  proof (cases "dropWhile (\<lambda>c. \<not> isTerminator c) s")
    case Nil
    then have "f = s" using "1.prems"(1) by (simp only: splitSentences_last) simp
    moreover have "\<forall>x\<in>set s. \<not> isTerminator x" using Nil by (simp add: dropWhile_eq_Nil_conv)
    ultimately show ?thesis using "1.prems"(2) by blast
  next
    case (Cons d rest)
    have "f = takeWhile (\<lambda>c. \<not> isTerminator c) s \<or> f \<in> set (splitSentences (dropWhile isTerminator rest))"
      using "1.prems"(1) by (simp only: splitSentences_next[OF Cons]) simp
    then show ?thesis
    proof
      assume "f = takeWhile (\<lambda>c. \<not> isTerminator c) s"
      then show ?thesis using "1.prems"(2) by (auto dest: set_takeWhileD)
    next
      assume "f \<in> set (splitSentences (dropWhile isTerminator rest))"
      then show ?thesis using "1.IH"[OF Cons] "1.prems"(2) by blast
    qed
  qed
qed

lemma filter_dropWhile_neg: "filter (\<lambda>c. \<not> P c) (dropWhile P xs) = filter (\<lambda>c. \<not> P c) xs"
  by (induction xs) auto

lemma concat_splitSentences:
  "concat (splitSentences s) = filter (\<lambda>c. \<not> isTerminator c) s"
proof (induction s rule: splitSentences.induct)
  case (1 s)
  let ?P = "\<lambda>c. \<not> isTerminator c"
  show ?case
  proof (cases "dropWhile ?P s")
    case Nil
    then have "\<forall>x\<in>set s. ?P x" by (simp add: dropWhile_eq_Nil_conv)
    then have "filter ?P s = s" by (simp add: filter_id_conv)
    then show ?thesis by (simp add: splitSentences_last[OF Nil])
  next
    case (Cons d rest)
    have d: "isTerminator d" using Cons
      by (metis hd_dropWhile list.sel(1) list.distinct(1))
    have "filter ?P s = filter ?P (takeWhile ?P s) @ filter ?P (dropWhile ?P s)"
      by (metis filter_append takeWhile_dropWhile_id)
    also have "filter ?P (takeWhile ?P s) = takeWhile ?P s"
      by (simp add: filter_id_conv) (auto dest: set_takeWhileD)
    also have "filter ?P (dropWhile ?P s) = filter ?P rest"
      using d by (simp add: Cons)
    also have "\<dots> = filter ?P (dropWhile isTerminator rest)"
      by (simp add: filter_dropWhile_neg)
    finally show ?thesis using "1.IH"[OF Cons]
      by (simp add: splitSentences_next[OF Cons])
  qed
qed

section \<open>The fallback summary\<close>

lemma joinWith_five:
  "joinWith sep [a, b, c, d, e] = a @ sep @ b @ sep @ c @ sep @ d @ sep @ e"
  by simp

lemma take_five:
  assumes "5 \<le> length xs"
  shows "take 5 xs = [xs ! 0, xs ! 1, xs ! 2, xs ! 3, xs ! 4]"
proof -
  have "length (take 5 xs) = 5" using assms by simp
  then show ?thesis using assms
    by (intro nth_equalityI) (auto simp: less_Suc_eq numeral_eq_Suc)
qed

text \<open>
  C2. When the split yields at least five fragments whose trimmed length is greater
  than 10, the Summary block is the header line \<open>Summary:\<close> followed by exactly
  five entries joined by newlines: the bullet marker and the trimmed text of the
  first five fragments of trimmed length greater than 10, in the order the split
  produced them. No fragment of trimmed length at most 10 gets an entry. With no
  customPrompt the block is the whole output; a customPrompt only puts its own
  block in front.
\<close>

theorem summary_of_five_fragments:
  assumes "5 \<le> length (filter (\<lambda>s. 10 < length (trim s)) (splitSentences transcript))"
  shows "(let fragments = filter (\<lambda>s. 10 < length (trim s)) (splitSentences transcript);
              block = str ''Summary:'' @ str ''\<newline>''
                  @ bullet @ trim (fragments ! 0) @ str ''\<newline>''
                  @ bullet @ trim (fragments ! 1) @ str ''\<newline>''
                  @ bullet @ trim (fragments ! 2) @ str ''\<newline>''
                  @ bullet @ trim (fragments ! 3) @ str ''\<newline>''
                  @ bullet @ trim (fragments ! 4)
          in (\<not> truthy customPrompt \<longrightarrow>
                generateSimpleSummary transcript customPrompt = Inr block)
           \<and> (\<forall>prompt. truthy customPrompt \<and> toStringJS customPrompt = Inr prompt \<longrightarrow>
                generateSimpleSummary transcript customPrompt =
                  Inr (str ''Custom Instructions: '' @ prompt @ str ''\<newline>\<newline>'' @ block)))
       \<and> subseq (take 5 (filter (\<lambda>s. 10 < length (trim s)) (splitSentences transcript)))
                 (splitSentences transcript)
       \<and> (\<forall>s\<in>set (splitSentences transcript).
             length (trim s) \<le> 10 \<longrightarrow> bullet @ trim s \<notin> set (keyPoints transcript))"
proof -
  let ?fs = "filter (\<lambda>s. 10 < length (trim s)) (splitSentences transcript)"
  have "subseq (take 5 ?fs) ?fs"
    by (metis append_take_drop_id prefix_def prefix_imp_subseq)
  moreover have "subseq ?fs (splitSentences transcript)"
    by simp
  ultimately have order: "subseq (take 5 ?fs) (splitSentences transcript)"
    by (rule subseq_order.trans)
  have short: "\<forall>s\<in>set (splitSentences transcript).
             length (trim s) \<le> 10 \<longrightarrow> bullet @ trim s \<notin> set (keyPoints transcript)"
    by (auto simp: keyPoints_def sentences_def dest!: in_set_takeD)
  have hdr: "str ''Summary:\<newline>'' = str ''Summary:'' @ str ''\<newline>''"
    by (simp add: str_def)
  have out: "let fragments = ?fs;
              block = str ''Summary:'' @ str ''\<newline>''
                  @ bullet @ trim (fragments ! 0) @ str ''\<newline>''
                  @ bullet @ trim (fragments ! 1) @ str ''\<newline>''
                  @ bullet @ trim (fragments ! 2) @ str ''\<newline>''
                  @ bullet @ trim (fragments ! 3) @ str ''\<newline>''
                  @ bullet @ trim (fragments ! 4)
          in (\<not> truthy customPrompt \<longrightarrow>
                generateSimpleSummary transcript customPrompt = Inr block)
           \<and> (\<forall>prompt. truthy customPrompt \<and> toStringJS customPrompt = Inr prompt \<longrightarrow>
                generateSimpleSummary transcript customPrompt =
                  Inr (str ''Custom Instructions: '' @ prompt @ str ''\<newline>\<newline>'' @ block))"
    by (simp add: generateSimpleSummary_def keyPoints_def sentences_def take_five[OF assms] hdr
        del: joinWith.simps add: joinWith_five)
  from out order short show ?thesis
    by blast
qed

lemma example_fragments:
  "splitSentences exampleTranscript =
     [str ''Ok'', str '' We discussed the budget'', str '' Yes'', str '' It was long'',
      str '' Exactly 10'', str '' Nothing else matters here really'',
      str '' This is fragment four'', str '' No'', str '' This is the fifth one'',
      str '' And a sixth one follows'', []]"
  by code_simp

lemma example_qualifying:
  "filter (\<lambda>s. 10 < length (trim s)) (splitSentences exampleTranscript) =
     [str '' We discussed the budget'', str '' It was long'',
      str '' Nothing else matters here really'', str '' This is fragment four'',
      str '' This is the fifth one'', str '' And a sixth one follows'']"
  by code_simp

lemma trim_examples:
  "trim (str '' We discussed the budget'') = str ''We discussed the budget''"
  "trim (str '' It was long'') = str ''It was long''"
  "trim (str '' Nothing else matters here really'') = str ''Nothing else matters here really''"
  "trim (str '' This is fragment four'') = str ''This is fragment four''"
  "trim (str '' This is the fifth one'') = str ''This is the fifth one''"
  by code_simp+

theorem summary_of_five_fragments_witness:
  "5 \<le> length (filter (\<lambda>s. 10 < length (trim s)) (splitSentences exampleTranscript))
   \<and> \<not> truthy JUndefined
   \<and> splitSentences exampleTranscript =
     [str ''Ok'', str '' We discussed the budget'', str '' Yes'', str '' It was long'',
      str '' Exactly 10'', str '' Nothing else matters here really'',
      str '' This is fragment four'', str '' No'', str '' This is the fifth one'',
      str '' And a sixth one follows'', []]
   \<and> generateSimpleSummary exampleTranscript JUndefined =
     Inr (str ''Summary:'' @ str ''\<newline>''
          @ bullet @ str ''We discussed the budget'' @ str ''\<newline>''
          @ bullet @ str ''It was long'' @ str ''\<newline>''
          @ bullet @ str ''Nothing else matters here really'' @ str ''\<newline>''
          @ bullet @ str ''This is fragment four'' @ str ''\<newline>''
          @ bullet @ str ''This is the fifth one'')"
proof -
  have h: "5 \<le> length (filter (\<lambda>s. 10 < length (trim s)) (splitSentences exampleTranscript))"
    by (simp add: example_qualifying)
  from summary_of_five_fragments [OF h, of JUndefined]
  have "generateSimpleSummary exampleTranscript JUndefined =
     Inr (str ''Summary:'' @ str ''\<newline>''
          @ bullet @ str ''We discussed the budget'' @ str ''\<newline>''
          @ bullet @ str ''It was long'' @ str ''\<newline>''
          @ bullet @ str ''Nothing else matters here really'' @ str ''\<newline>''
          @ bullet @ str ''This is fragment four'' @ str ''\<newline>''
          @ bullet @ str ''This is the fifth one'')"
    by (simp add: Let_def example_qualifying trim_examples)
  with h show ?thesis
    by (simp add: example_fragments)
qed







text \<open>
  C4. For a non-empty customPrompt string the output is \<open>Custom Instructions: \<close>,
  the prompt, a newline and a blank line, and then the Summary block; without a
  customPrompt the output is the Summary block alone, which starts with the header
  \<open>Summary:\<close>.
\<close>

theorem custom_instructions_block:
  assumes "prompt \<noteq> []"
  shows "generateSimpleSummary transcript (JStr prompt) =
           Inr (str ''Custom Instructions: '' @ prompt @ str ''\<newline>'' @ str ''\<newline>''
                @ str ''Summary:'' @ str ''\<newline>''
                @ joinWith (str ''\<newline>'') (keyPoints transcript))
       \<and> generateSimpleSummary transcript JUndefined =
           Inr (str ''Summary:'' @ str ''\<newline>''
                @ joinWith (str ''\<newline>'') (keyPoints transcript))"
  using assms by (simp add: generateSimpleSummary_def str_def)

theorem custom_instructions_block_witness:
  "str ''Be brief'' \<noteq> [] \<and>
   generateSimpleSummary (str ''Hi.'') (JStr (str ''Be brief'')) =
     Inr (str ''Custom Instructions: Be brief'' @ str ''\<newline>'' @ str ''\<newline>''
          @ str ''Summary:'' @ str ''\<newline>'')"
proof -
  have h: "str ''Be brief'' \<noteq> []"
    by (simp add: str_def)
  have k: "keyPoints (str ''Hi.'') = []"
    by code_simp
  have c: "str ''Custom Instructions: '' @ str ''Be brief'' = str ''Custom Instructions: Be brief''"
    by (simp add: str_def)
  show ?thesis
    using h custom_instructions_block [OF h, of "str ''Hi.''"]
    by (simp add: k c del: append_assoc add: append_assoc [symmetric])
qed


section \<open>The Share operation: validation and credentials\<close>

lemma deliveries_append: "deliveries (xs @ ys) = deliveries xs @ deliveries ys"
  by (induction xs rule: deliveries.induct) simp_all

lemma share_invalid:
  "\<not> truthy (body_summary body) \<or> \<not> truthy (body_recipients body)
     \<or> \<not> isArray (body_recipients body) \<Longrightarrow>
   share e body = ([], errorResponse 400 ''Invalid request data'')"
  by (simp add: share_def Let_def)

lemma share_valid:
  assumes "truthy (body_summary body)" and "body_recipients body = JArr rs"
    and "sendEmail e rs (body_subject body) (body_summary body) (body_sender body) = (evs, res)"
  shows "share e body =
           (case res of
              Inl err \<Rightarrow> (evs @ [ConsoleError (str ''Email error:'')],
                           errorResponse 500 ''Failed to send email'')
            | Inr ok \<Rightarrow> (evs, sharedResponse))"
  using assms by (simp add: share_def Let_def split: sum.split)

lemma sendEmail_no_recipients:
  "deliveries (fst (sendEmail e [] subject summary sender)) = []"
  by (simp add: sendEmail_def Let_def deliveries_append split: option.split)

text \<open>
  C1 (as amended). A Share request whose recipients value is not a list is answered
  with the client error \<open>Invalid request data\<close> and has no effect at all; a request
  with an empty recipient list issues no delivery call either. An empty list is
  an Array and is truthy, so the validation itself lets it through.
\<close>

theorem share_rejects_non_list:
  "(\<not> isArray (body_recipients body) \<longrightarrow>
      share e body = ([], errorResponse 400 ''Invalid request data''))
   \<and> (body_recipients body = JArr [] \<longrightarrow> deliveries (fst (share e body)) = [])"
proof -
  have a: "\<not> isArray (body_recipients body) \<longrightarrow>
      share e body = ([], errorResponse 400 ''Invalid request data'')"
    by (simp add: share_invalid)
  have "deliveries (fst (share e body)) = []" if rs: "body_recipients body = JArr []"
  proof (cases "truthy (body_summary body)")
    case False
    then show ?thesis by (simp add: share_invalid)
  next
    case True
    obtain evs res where
      run: "sendEmail e [] (body_subject body) (body_summary body) (body_sender body) = (evs, res)"
      by (cases "sendEmail e [] (body_subject body) (body_summary body) (body_sender body)")
    have "deliveries evs = []"
      using sendEmail_no_recipients [of e "body_subject body" "body_summary body" "body_sender body"]
      by (simp add: run)
    then show ?thesis
      by (simp add: share_valid [OF True rs run] deliveries_append split: sum.split)
  qed
  with a show ?thesis by blast
qed

text \<open>
  With a non-empty summary, an empty recipient list and no delivery key, the
  answer is the success response, not \<open>Invalid request data\<close>.
\<close>

theorem share_empty_list_counterexample:
  "snd (share envNoKeys \<lparr>body_summary = JStr (str ''Notes''), body_recipients = JArr [],
                          body_subject = JStr (str ''Hi''), body_sender = JUndefined\<rparr>)
     = sharedResponse
   \<and> snd (share envNoKeys \<lparr>body_summary = JStr (str ''Notes''), body_recipients = JArr [],
                          body_subject = JStr (str ''Hi''), body_sender = JUndefined\<rparr>)
     \<noteq> errorResponse 400 ''Invalid request data''"
  by (simp add: share_def sendEmail_def envNoKeys_def Let_def errorResponse_def
      sharedResponse_def str_def)

theorem share_rejects_non_list_witness:
  "\<not> isArray (JStr (str ''a@b.c'')) \<and>
   share envNoKeys \<lparr>body_summary = JStr (str ''Notes''), body_recipients = JStr (str ''a@b.c''),
                     body_subject = JStr (str ''Hi''), body_sender = JUndefined\<rparr>
     = ([], errorResponse 400 ''Invalid request data'')
   \<and> deliveries (fst (share envNoKeys \<lparr>body_summary = JStr (str ''Notes''), body_recipients = JArr [],
                     body_subject = JStr (str ''Hi''), body_sender = JUndefined\<rparr>)) = []"
  using share_rejects_non_list [of "\<lparr>body_summary = JStr (str ''Notes''), body_recipients = JStr (str ''a@b.c''),
                     body_subject = JStr (str ''Hi''), body_sender = JUndefined\<rparr>" envNoKeys]
    share_rejects_non_list [of "\<lparr>body_summary = JStr (str ''Notes''), body_recipients = JArr [],
                     body_subject = JStr (str ''Hi''), body_sender = JUndefined\<rparr>" envNoKeys]
  by simp


lemma sendEmail_malformed_key:
  assumes "SENDGRID_API_KEY e = Some key" and "key \<noteq> []" and "\<not> prefix (str ''SG.'') key"
  shows "sendEmail e recipients subject summary sender =
           ([ConsoleLog (str ''Debug: SENDGRID_API_KEY =''),
             ConsoleLog (str ''Debug: All environment variables:''),
             ConsoleLog (str ''Error: SendGrid API key must start with \"SG.\"''),
             ConsoleLog (str ''Current API key format:''),
             ConsoleError (str ''Email sending failed:'')],
            Inl (Error (str ''Invalid SendGrid API key format'')))"
  using assms by (simp add: sendEmail_def Let_def)

text \<open>
  C9. With a delivery key that is set and non-empty but does not start with \<open>SG.\<close>,
  a Share request never succeeds: a request that passes the validation is answered
  with the server error \<open>Failed to send email\<close>, no delivery call is made for any
  recipient, and the logging path of the missing key (its log lines, its simulated
  delay) is not taken.
\<close>

theorem malformed_key_fails:
  assumes "SENDGRID_API_KEY e = Some key" and "key \<noteq> []" and "\<not> prefix (str ''SG.'') key"
  shows "(truthy (body_summary body) \<and> truthy (body_recipients body) \<and> isArray (body_recipients body)
            \<longrightarrow> snd (share e body) = errorResponse 500 ''Failed to send email'')
       \<and> status (snd (share e body)) \<noteq> 200
       \<and> deliveries (fst (share e body)) = []
       \<and> Timeout 1000 \<notin> set (fst (share e body))
       \<and> ConsoleLog (str ''Email would be sent to:'') \<notin> set (fst (share e body))"
proof (cases "truthy (body_summary body) \<and> truthy (body_recipients body) \<and> isArray (body_recipients body)")
  case False
  then have "share e body = ([], errorResponse 400 ''Invalid request data'')"
    by (simp add: share_invalid)
  then show ?thesis using False by (simp add: errorResponse_def)
next
  case True
  then obtain rs where rs: "body_recipients body = JArr rs"
    by (cases "body_recipients body") simp_all
  from True have summ: "truthy (body_summary body)" by simp
  note run = sendEmail_malformed_key [OF assms, of rs "body_subject body" "body_summary body" "body_sender body"]
  show ?thesis
    by (simp add: share_valid [OF summ rs run] errorResponse_def str_def)
qed


theorem malformed_key_fails_witness:
  "SENDGRID_API_KEY envBadSendgridKey = Some (str ''my-secret-key'')
   \<and> str ''my-secret-key'' \<noteq> []
   \<and> \<not> prefix (str ''SG.'') (str ''my-secret-key'')
   \<and> truthy (body_summary exampleShare) \<and> truthy (body_recipients exampleShare)
   \<and> isArray (body_recipients exampleShare)
   \<and> snd (share envBadSendgridKey exampleShare) = errorResponse 500 ''Failed to send email''
   \<and> deliveries (fst (share envBadSendgridKey exampleShare)) = []"
proof -
  have k: "SENDGRID_API_KEY envBadSendgridKey = Some (str ''my-secret-key'')"
    by (simp add: envBadSendgridKey_def)
  have n: "str ''my-secret-key'' \<noteq> []"
    by (simp add: str_def)
  have p: "\<not> prefix (str ''SG.'') (str ''my-secret-key'')"
    by (simp add: str_def)
  have v: "truthy (body_summary exampleShare) \<and> truthy (body_recipients exampleShare)
   \<and> isArray (body_recipients exampleShare)"
    by (simp add: exampleShare_def str_def)
  show ?thesis
    using k n p v malformed_key_fails [OF k n p, of exampleShare]
    by simp
qed

section \<open>The delivery loop\<close>

lemma sendEach_all_delivered:
  assumes "\<And>r. makeMessage r sender subject summary = Inr (m r)"
    and "\<forall>r\<in>set rs. \<not> isl (toStringJS r)"
    and "\<forall>j<length rs. sgSend e (i + j) (m (rs ! j)) = None"
  shows "deliveries (fst (sendEach e i rs subject summary sender)) = map m rs
       \<and> snd (sendEach e i rs subject summary sender) = Inr ()"
  using assms(2,3)
proof (induction rs arbitrary: i)
  case Nil
  show ?case by simp
next
  case (Cons r rs)
  from Cons.prems(2) have now: "sgSend e i (m r) = None"
    by fastforce
  from Cons.prems(1) obtain x where x: "toStringJS r = Inr x"
    by (cases "toStringJS r") auto
  have "\<forall>j<length rs. sgSend e (Suc i + j) (m (rs ! j)) = None"
  proof (intro allI impI)
    fix j assume "j < length rs"
    then have "sgSend e (i + Suc j) (m ((r # rs) ! Suc j)) = None"
      using Cons.prems(2) by (metis Suc_less_eq length_Cons)
    then show "sgSend e (Suc i + j) (m (rs ! j)) = None" by simp
  qed
  with Cons.IH [of "Suc i"] Cons.prems(1)
  have "deliveries (fst (sendEach e (Suc i) rs subject summary sender)) = map m rs
       \<and> snd (sendEach e (Suc i) rs subject summary sender) = Inr ()"
    by simp
  then show ?case
    by (auto simp add: assms(1) now x split: prod.split)
qed

lemma sendEach_first_failure:
  assumes "\<And>r. makeMessage r sender subject summary = Inr (m r)"
    and "\<forall>r\<in>set rs. \<not> isl (toStringJS r)"
    and "k < length rs"
    and "\<forall>j<k. sgSend e (i + j) (m (rs ! j)) = None"
    and "sgSend e (i + k) (m (rs ! k)) = Some err"
  shows "deliveries (fst (sendEach e i rs subject summary sender)) = map m (take (Suc k) rs)
       \<and> snd (sendEach e i rs subject summary sender) = Inl err"
  using assms(2-5)
proof (induction rs arbitrary: i k)
  case Nil
  then show ?case by simp
next
  case (Cons r rs)
  show ?case
  proof (cases k)
    case 0
    with Cons.prems(4) have "sgSend e i (m r) = Some err" by simp
    then show ?thesis using 0 by (simp add: assms(1))
  next
    case (Suc k')
    with Cons.prems(3) have now: "sgSend e i (m r) = None" by fastforce
    from Cons.prems(1) obtain x where x: "toStringJS r = Inr x"
      by (cases "toStringJS r") auto
    have before: "\<forall>j<k'. sgSend e (Suc i + j) (m (rs ! j)) = None"
    proof (intro allI impI)
      fix j assume "j < k'"
      then have "sgSend e (i + Suc j) (m ((r # rs) ! Suc j)) = None"
        using Cons.prems(3) Suc by (metis Suc_less_eq)
      then show "sgSend e (Suc i + j) (m (rs ! j)) = None" by simp
    qed
    have at: "sgSend e (Suc i + k') (m (rs ! k')) = Some err"
      using Cons.prems(4) Suc by simp
    have "k' < length rs" using Cons.prems(2) Suc by simp
    with Cons.IH [of k' "Suc i"] Cons.prems(1) before at
    have "deliveries (fst (sendEach e (Suc i) rs subject summary sender)) = map m (take (Suc k') rs)
       \<and> snd (sendEach e (Suc i) rs subject summary sender) = Inl err"
      by simp
    then show ?thesis
      using Suc by (auto simp add: assms(1) now x split: prod.split)
  qed
qed


lemma makeMessage_messageFor:
  assumes "toStringJS (body_summary body) = Inr text"
  shows "makeMessage r (senderOrDefault (body_sender body)) (body_subject body) (body_summary body)
           = Inr (messageFor body text r)"
  using assms by (simp add: makeMessage_def messageFor_def)

lemma sendEmail_well_formed_key:
  assumes "SENDGRID_API_KEY e = Some key" and "prefix (str ''SG.'') key"
    and "sendEach e 0 recipients subject summary (senderOrDefault sender) = (sent, res)"
  shows "deliveries (fst (sendEmail e recipients subject summary sender)) = deliveries sent
       \<and> snd (sendEmail e recipients subject summary sender)
           = (case res of Inl err \<Rightarrow> Inl err | Inr u \<Rightarrow> Inr True)"
proof -
  from assms(2) have "key \<noteq> []"
    by (auto simp: str_def)
  with assms show ?thesis
    by (simp add: sendEmail_def Let_def deliveries_append split: sum.split)
qed

text \<open>
  C8. With a well-formed delivery key and a request that passes the validation
  (its summary and recipients rendering as text), the delivery calls are issued one
  per recipient in list order, the \<open>j\<close>-th call carrying the message for the \<open>j\<close>-th
  recipient. If the call for recipient \<open>k\<close> is the first to raise an error, the
  calls issued are exactly those for recipients \<open>0..k\<close>, none for a later
  recipient, and the caller gets the single server error \<open>Failed to send email\<close>.
  If no call raises an error, every recipient gets its call and the caller gets the
  success response.
\<close>

theorem delivery_stops_at_first_failure:
  assumes key: "SENDGRID_API_KEY e = Some key" "prefix (str ''SG.'') key"
    and summary: "truthy (body_summary body)" "toStringJS (body_summary body) = Inr text"
    and recipients: "body_recipients body = JArr rs" "\<forall>r\<in>set rs. \<not> isl (toStringJS r)"
  shows "(\<forall>k err. k < length rs
            \<and> (\<forall>j<k. sgSend e j (messageFor body text (rs ! j)) = None)
            \<and> sgSend e k (messageFor body text (rs ! k)) = Some err
          \<longrightarrow> deliveries (fst (share e body)) = map (messageFor body text) (take (Suc k) rs)
              \<and> snd (share e body) = errorResponse 500 ''Failed to send email'')
       \<and> ((\<forall>j<length rs. sgSend e j (messageFor body text (rs ! j)) = None)
          \<longrightarrow> deliveries (fst (share e body)) = map (messageFor body text) rs
              \<and> snd (share e body) = sharedResponse)"
proof -
  let ?m = "messageFor body text"
  let ?loop = "sendEach e 0 rs (body_subject body) (body_summary body) (senderOrDefault (body_sender body))"
  let ?mail = "sendEmail e rs (body_subject body) (body_summary body) (body_sender body)"
  note mk = makeMessage_messageFor [OF summary(2)]
  have mail: "deliveries (fst ?mail) = deliveries (fst ?loop)
       \<and> snd ?mail = (case snd ?loop of Inl err \<Rightarrow> Inl err | Inr u \<Rightarrow> Inr True)"
    using sendEmail_well_formed_key [OF key, of rs "body_subject body" "body_summary body" "body_sender body" "fst ?loop" "snd ?loop"]
    by simp
  have shr: "share e body =
           (case snd ?mail of
              Inl err \<Rightarrow> (fst ?mail @ [ConsoleError (str ''Email error:'')],
                           errorResponse 500 ''Failed to send email'')
            | Inr ok \<Rightarrow> (fst ?mail, sharedResponse))"
    using share_valid [OF summary(1) recipients(1), of e "fst ?mail" "snd ?mail"] by simp
  have fails: "deliveries (fst (share e body)) = map ?m (take (Suc k) rs)
              \<and> snd (share e body) = errorResponse 500 ''Failed to send email''"
    if "k < length rs" and "\<forall>j<k. sgSend e j (?m (rs ! j)) = None"
      and "sgSend e k (?m (rs ! k)) = Some err" for k err
  proof -
    have "deliveries (fst ?loop) = map ?m (take (Suc k) rs) \<and> snd ?loop = Inl err"
      using sendEach_first_failure [where m = ?m and i = 0, OF mk recipients(2) that(1)] that(2,3)
      by simp
    with mail show ?thesis
      by (simp add: shr deliveries_append)
  qed
  have succeeds: "deliveries (fst (share e body)) = map ?m rs
              \<and> snd (share e body) = sharedResponse"
    if "\<forall>j<length rs. sgSend e j (?m (rs ! j)) = None"
  proof -
    have "deliveries (fst ?loop) = map ?m rs \<and> snd ?loop = Inr ()"
      using sendEach_all_delivered [where m = ?m and i = 0, OF mk recipients(2)] that
      by simp
    with mail show ?thesis
      by (simp add: shr)
  qed
  from fails succeeds show ?thesis by blast
qed

theorem delivery_stops_at_first_failure_witness:
  "SENDGRID_API_KEY envSecondSendFails = Some (str ''SG.key'')
   \<and> prefix (str ''SG.'') (str ''SG.key'')
   \<and> truthy (body_summary exampleShare)
   \<and> toStringJS (body_summary exampleShare) = Inr (str ''Notes'')
   \<and> body_recipients exampleShare
       = JArr [JStr (str ''a@x.org''), JStr (str ''b@x.org''), JStr (str ''c@x.org'')]
   \<and> sgSend envSecondSendFails 0 (messageFor exampleShare (str ''Notes'') (JStr (str ''a@x.org''))) = None
   \<and> sgSend envSecondSendFails 1 (messageFor exampleShare (str ''Notes'') (JStr (str ''b@x.org'')))
       = Some Rejected
   \<and> deliveries (fst (share envSecondSendFails exampleShare))
       = [messageFor exampleShare (str ''Notes'') (JStr (str ''a@x.org'')),
          messageFor exampleShare (str ''Notes'') (JStr (str ''b@x.org''))]
   \<and> snd (share envSecondSendFails exampleShare) = errorResponse 500 ''Failed to send email''
   \<and> deliveries (fst (share envDelivers exampleShare))
       = [messageFor exampleShare (str ''Notes'') (JStr (str ''a@x.org'')),
          messageFor exampleShare (str ''Notes'') (JStr (str ''b@x.org'')),
          messageFor exampleShare (str ''Notes'') (JStr (str ''c@x.org''))]
   \<and> snd (share envDelivers exampleShare) = sharedResponse"
proof -
  let ?rs = "[JStr (str ''a@x.org''), JStr (str ''b@x.org''), JStr (str ''c@x.org'')]"
  let ?m = "messageFor exampleShare (str ''Notes'')"
  have key: "SENDGRID_API_KEY envSecondSendFails = Some (str ''SG.key'')"
    by (simp add: envSecondSendFails_def)
  have key': "SENDGRID_API_KEY envDelivers = Some (str ''SG.key'')"
    by (simp add: envDelivers_def)
  have pre: "prefix (str ''SG.'') (str ''SG.key'')"
    by (simp add: str_def)
  have summ: "truthy (body_summary exampleShare)"
    by (simp add: exampleShare_def str_def)
  have rendered: "toStringJS (body_summary exampleShare) = Inr (str ''Notes'')"
    by (simp add: exampleShare_def)
  have rs: "body_recipients exampleShare = JArr ?rs"
    by (simp add: exampleShare_def)
  have strs: "\<forall>r\<in>set ?rs. \<not> isl (toStringJS r)"
    by simp
  have first: "sgSend envSecondSendFails 0 (?m (JStr (str ''a@x.org''))) = None"
    by (simp add: envSecondSendFails_def)
  have second: "sgSend envSecondSendFails 1 (?m (JStr (str ''b@x.org''))) = Some Rejected"
    by (simp add: envSecondSendFails_def)
  have all: "\<forall>j<length ?rs. sgSend envDelivers j (?m (?rs ! j)) = None"
    by (simp add: envDelivers_def)
  note fails = delivery_stops_at_first_failure [OF key pre summ rendered rs strs]
  note works = delivery_stops_at_first_failure [OF key' pre summ rendered rs strs]
  from fails have
    "1 < length ?rs \<and> (\<forall>j<1. sgSend envSecondSendFails j (?m (?rs ! j)) = None)
       \<and> sgSend envSecondSendFails 1 (?m (?rs ! 1)) = Some Rejected
     \<longrightarrow> deliveries (fst (share envSecondSendFails exampleShare)) = map ?m (take (Suc 1) ?rs)
         \<and> snd (share envSecondSendFails exampleShare) = errorResponse 500 ''Failed to send email''"
    by blast
  then have a: "deliveries (fst (share envSecondSendFails exampleShare))
                  = [?m (JStr (str ''a@x.org'')), ?m (JStr (str ''b@x.org''))]
         \<and> snd (share envSecondSendFails exampleShare) = errorResponse 500 ''Failed to send email''"
    using first second by simp
  from works all have b: "deliveries (fst (share envDelivers exampleShare)) = map ?m ?rs
              \<and> snd (share envDelivers exampleShare) = sharedResponse"
    by blast
  from key pre summ rendered rs first second a b show ?thesis
    by simp
qed

section \<open>The Summarize operation: inputs and fallback\<close>

lemma posts_append: "posts (xs @ ys) = posts xs @ posts ys"
  by (induction xs rule: posts.induct) simp_all


lemma generateSummary_without_key:
  assumes "\<not> configured (GROQ_API_KEY e)"
  shows "snd (generateSummary e transcript customPrompt) = simpleSummaryValue transcript customPrompt"
    and "posts (fst (generateSummary e transcript customPrompt)) = []"
  using assms
  by (auto simp: generateSummary_def configured_def Let_def posts_append
      split: option.splits sum.splits)

lemma generateSummary_upstream_failure:
  assumes "\<forall>request\<in>set (posts (fst (generateSummary e transcript customPrompt))).
             isl (axiosPost e request)"
  shows "snd (generateSummary e transcript customPrompt) = simpleSummaryValue transcript customPrompt"
  using assms
  by (auto simp: generateSummary_def Let_def posts_append
      split: option.splits sum.splits if_splits)





lemma trim_Nil [simp]: "trim [] = []"
  by (simp add: trim_def)

text \<open>
  C6 (as amended). Without an uploaded file, a transcript field that is absent or
  otherwise falsy, the empty string included, is answered with the client error
  \<open>No transcript provided\<close>. An uploaded file whose content is empty or only white
  space, and a non-empty transcript field that is only white space, are answered
  with the client error \<open>Transcript is empty\<close>. In each case the handler has no
  effect: no completion call is attempted.
\<close>

theorem summarize_rejects_missing_transcript:
  "(req_file req = None \<and> \<not> truthy (body_transcript req) \<longrightarrow>
      summarize e req = ([], errorResponse 400 ''No transcript provided''))
   \<and> (\<forall>content. req_file req = Some content \<and> trim content = [] \<longrightarrow>
      summarize e req = ([], errorResponse 400 ''Transcript is empty''))
   \<and> (\<forall>text. req_file req = None \<and> body_transcript req = JStr text \<and> text \<noteq> []
           \<and> trim text = [] \<longrightarrow>
      summarize e req = ([], errorResponse 400 ''Transcript is empty''))"
  by (simp add: summarize_def summarizeText_def Let_def)

text \<open>
  A transcript field that is present and empty, with no file, is answered with
  \<open>No transcript provided\<close>, not with \<open>Transcript is empty\<close>.
\<close>

theorem summarize_empty_text_counterexample:
  "snd (summarize envNoKeys
          \<lparr>req_file = None, body_customPrompt = JUndefined, body_transcript = JStr []\<rparr>)
     = errorResponse 400 ''No transcript provided''
   \<and> snd (summarize envNoKeys
          \<lparr>req_file = None, body_customPrompt = JUndefined, body_transcript = JStr []\<rparr>)
     \<noteq> errorResponse 400 ''Transcript is empty''"
  by (simp add: summarize_def Let_def errorResponse_def str_def)

theorem summarize_rejects_missing_transcript_witness:
  "\<not> truthy JUndefined
   \<and> summarize envCompletionDown
        \<lparr>req_file = None, body_customPrompt = JUndefined, body_transcript = JUndefined\<rparr>
       = ([], errorResponse 400 ''No transcript provided'')
   \<and> trim (str ''  '') = []
   \<and> summarize envCompletionDown
        \<lparr>req_file = Some (str ''  ''), body_customPrompt = JUndefined, body_transcript = JUndefined\<rparr>
       = ([], errorResponse 400 ''Transcript is empty'')
   \<and> str ''  '' \<noteq> []
   \<and> summarize envCompletionDown
        \<lparr>req_file = None, body_customPrompt = JUndefined, body_transcript = JStr (str ''  '')\<rparr>
       = ([], errorResponse 400 ''Transcript is empty'')"
proof -
  have t: "trim (str ''  '') = []"
    by code_simp
  have n: "str ''  '' \<noteq> []"
    by (simp add: str_def)
  show ?thesis
    using t n
      summarize_rejects_missing_transcript [of
        "\<lparr>req_file = None, body_customPrompt = JUndefined, body_transcript = JUndefined\<rparr>"
        envCompletionDown]
      summarize_rejects_missing_transcript [of
        "\<lparr>req_file = Some (str ''  ''), body_customPrompt = JUndefined, body_transcript = JUndefined\<rparr>"
        envCompletionDown]
      summarize_rejects_missing_transcript [of
        "\<lparr>req_file = None, body_customPrompt = JUndefined, body_transcript = JStr (str ''  '')\<rparr>"
        envCompletionDown]
    by simp
qed

text \<open>
  C10. When a Summarize request carries an uploaded file, the file's content is the
  transcript: the answer is the one for that content, it does not change when the
  transcript text field is replaced by any other value, and a success response
  returns the file's content as the original text.
\<close>

theorem file_takes_precedence:
  assumes "req_file req = Some content"
  shows "summarize e req = summarizeText e (JStr content) (body_customPrompt req)
       \<and> summarize e req = summarize e (req\<lparr>body_transcript := other\<rparr>)
       \<and> (status (snd (summarize e req)) = 200 \<longrightarrow>
            (\<exists>summary. snd (summarize e req) = summaryResponse summary (JStr content)))"
proof -
  have a: "summarize e req = summarizeText e (JStr content) (body_customPrompt req)"
    using assms by (simp add: summarize_def Let_def)
  have b: "summarize e (req\<lparr>body_transcript := other\<rparr>) = summarizeText e (JStr content) (body_customPrompt req)"
    using assms by (simp add: summarize_def Let_def)
  have c: "status (snd (summarizeText e (JStr content) p)) = 200 \<longrightarrow>
            (\<exists>summary. snd (summarizeText e (JStr content) p) = summaryResponse summary (JStr content))" for p
    by (auto simp: summarizeText_def errorResponse_def split: prod.split sum.split)
  from a b c show ?thesis by simp
qed


theorem file_takes_precedence_witness:
  "req_file \<lparr>req_file = Some (str ''Hi.''), body_customPrompt = JUndefined,
             body_transcript = JStr (str ''Another text entirely.'')\<rparr> = Some (str ''Hi.'')
   \<and> summarize envNoKeys
        \<lparr>req_file = Some (str ''Hi.''), body_customPrompt = JUndefined,
         body_transcript = JStr (str ''Another text entirely.'')\<rparr>
       = ([], summaryResponse (JStr (str ''Summary:\<newline>'')) (JStr (str ''Hi.'')))"
proof -
  let ?req = "\<lparr>req_file = Some (str ''Hi.''), body_customPrompt = JUndefined,
               body_transcript = JStr (str ''Another text entirely.'')\<rparr>"
  have f: "req_file ?req = Some (str ''Hi.'')"
    by simp
  have t: "trim (str ''Hi.'') = str ''Hi.''"
    by code_simp
  have ne: "trim (str ''Hi.'') \<noteq> []"
    by (simp add: t) (simp add: str_def)
  have k: "keyPoints (str ''Hi.'') = []"
    by code_simp
  have g: "generateSimpleSummary (str ''Hi.'') JUndefined = Inr (str ''Summary:\<newline>'')"
    by (simp add: generateSimpleSummary_def k)
  have "summarizeText envNoKeys (JStr (str ''Hi.'')) JUndefined
          = ([], summaryResponse (JStr (str ''Summary:\<newline>'')) (JStr (str ''Hi.'')))"
    using ne
    by (simp add: summarizeText_def generateSummary_def envNoKeys_def simpleSummaryValue_def g)
  with file_takes_precedence [OF f, of envNoKeys] f show ?thesis
    by simp
qed





text \<open>
  C5. The fallback summarizer is a function of the transcript and the customPrompt
  alone: it reads neither credentials nor network nor any other part of the
  environment. Whatever the two environments are, two runs of \<open>generateSummary\<close> on
  the same transcript and customPrompt that both end in the fallback (no completion
  key, or every completion call of the run rejected) return the same result, the
  one \<open>generateSimpleSummary\<close> computes.
\<close>

theorem fallback_deterministic:
  assumes "\<not> configured (GROQ_API_KEY e1)
           \<or> (\<forall>request\<in>set (posts (fst (generateSummary e1 transcript customPrompt))).
                 isl (axiosPost e1 request))"
    and "\<not> configured (GROQ_API_KEY e2)
           \<or> (\<forall>request\<in>set (posts (fst (generateSummary e2 transcript customPrompt))).
                 isl (axiosPost e2 request))"
  shows "snd (generateSummary e1 transcript customPrompt)
           = snd (generateSummary e2 transcript customPrompt)
       \<and> snd (generateSummary e1 transcript customPrompt)
           = (case generateSimpleSummary transcript customPrompt of
                Inl err \<Rightarrow> Inl err | Inr s \<Rightarrow> Inr (JStr s))"
proof -
  have "snd (generateSummary e transcript customPrompt) = simpleSummaryValue transcript customPrompt"
    if "\<not> configured (GROQ_API_KEY e)
           \<or> (\<forall>request\<in>set (posts (fst (generateSummary e transcript customPrompt))).
                 isl (axiosPost e request))" for e
    using that generateSummary_without_key(1) generateSummary_upstream_failure by blast
  from this [OF assms(1)] this [OF assms(2)] show ?thesis
    by (simp add: simpleSummaryValue_def)
qed

theorem fallback_deterministic_witness:
  "\<not> configured (GROQ_API_KEY envNoKeys)
   \<and> posts (fst (generateSummary envCompletionDown (str ''Hi.'') JUndefined))
       = [completionRequest (str ''gsk_key'') (str ''Hi.'') defaultInstruction]
   \<and> isl (axiosPost envCompletionDown
             (completionRequest (str ''gsk_key'') (str ''Hi.'') defaultInstruction))
   \<and> snd (generateSummary envNoKeys (str ''Hi.'') JUndefined)
       = snd (generateSummary envCompletionDown (str ''Hi.'') JUndefined)
   \<and> snd (generateSummary envNoKeys (str ''Hi.'') JUndefined)
       = Inr (JStr (str ''Summary:\<newline>''))"
proof -
  have a: "\<not> configured (GROQ_API_KEY envNoKeys)"
    by (simp add: envNoKeys_def configured_def)
  have p: "posts (fst (generateSummary envCompletionDown (str ''Hi.'') JUndefined))
       = [completionRequest (str ''gsk_key'') (str ''Hi.'') defaultInstruction]"
    by (simp add: generateSummary_def envCompletionDown_def Let_def str_def)
  have r: "isl (axiosPost envCompletionDown
             (completionRequest (str ''gsk_key'') (str ''Hi.'') defaultInstruction))"
    by (simp add: envCompletionDown_def)
  have k: "keyPoints (str ''Hi.'') = []"
    by code_simp
  have g: "generateSimpleSummary (str ''Hi.'') JUndefined = Inr (str ''Summary:\<newline>'')"
    by (simp add: generateSimpleSummary_def k)
  show ?thesis
    using a p r
      fallback_deterministic [where ?e1.0 = envNoKeys and ?e2.0 = envCompletionDown
        and transcript = "str ''Hi.''" and customPrompt = JUndefined]
    by (auto simp: g)
qed


end
